theory Spec2Isabelle
  imports Complex_Main
begin

section \<open>The bridge server of \<^verbatim>\<open>src/server/WebServer.ts\<close>\<close>

text \<open>
  The class \<^verbatim>\<open>WebServer\<close> is embedded as a record of its private fields and one HOL
  function per method, each taking the server and returning the changed server next to
  what the method did to the outside world.  What the class takes from Node (the
  filesystem, \<^verbatim>\<open>path\<close>, \<^verbatim>\<open>Buffer\<close>, \<^verbatim>\<open>JSON\<close>) is not code of this file: it
  enters the model as parameters, and the theorems hold for every value of them.
\<close>

subsection \<open>JavaScript values\<close>

text \<open>
  A JavaScript \<^verbatim>\<open>number\<close> is a double.  The server only compares one with zero and
  stores it, so a finite double is represented by the rational it denotes (both zeros
  by \<open>0\<close>), next to the three values that denote no rational.
\<close>

datatype jsnumber = Finite rat | NaN | PosInfinity | NegInfinity

text \<open>\<^verbatim>\<open>x > 0\<close> on numbers: false for \<^verbatim>\<open>NaN\<close>.\<close>

fun gt_zero :: "jsnumber \<Rightarrow> bool" where
  "gt_zero (Finite r) = (0 < r)"
| "gt_zero NaN = False"
| "gt_zero PosInfinity = True"
| "gt_zero NegInfinity = False"

text \<open>
  The values \<^verbatim>\<open>JSON.parse\<close> returns, and \<^verbatim>\<open>undefined\<close>, which reading an absent
  property gives.  An object is the list of its own properties.
\<close>

datatype jsval =
    JUndefined
  | JNull
  | JBool bool
  | JNum jsnumber
  | JStr string
  | JArr "jsval list"
  | JObj "(string \<times> jsval) list"

text \<open>The truth value JavaScript gives a value in a condition (\<^verbatim>\<open>a && b\<close>).\<close>

fun truthy :: "jsval \<Rightarrow> bool" where
  "truthy JUndefined = False"
| "truthy JNull = False"
| "truthy (JBool b) = b"
| "truthy (JNum (Finite r)) = (r \<noteq> 0)"
| "truthy (JNum NaN) = False"
| "truthy (JNum PosInfinity) = True"
| "truthy (JNum NegInfinity) = True"
| "truthy (JStr s) = (s \<noteq> [])"
| "truthy (JArr xs) = True"
| "truthy (JObj kvs) = True"

text \<open>
  What is thrown.  \<open>HandlerError\<close> is the value a handler of the host threw or rejected
  with, which may be any value at all.  The server does one thing with it, convert it to
  a string, so the value is given by that conversion: \<open>None\<close> for a value whose
  conversion itself throws a TypeError, as a \<^verbatim>\<open>Symbol\<close> and an object without
  \<^verbatim>\<open>toString\<close> do.
\<close>

datatype js_error =
    SyntaxError
  | TypeError
  | HandlerError "string option"
  | SerializeError
  | ListenError string
  | CloseError string

text \<open>
  \<^verbatim>\<open>parsed.name\<close> for the three names the server reads (\<^verbatim>\<open>type\<close>, \<^verbatim>\<open>payload\<close>,
  \<^verbatim>\<open>action\<close>): reading a property of \<^verbatim>\<open>null\<close> throws a TypeError, an object gives
  its own property or \<^verbatim>\<open>undefined\<close>, and no primitive or array prototype defines one
  of these names.
\<close>

fun get_prop :: "jsval \<Rightarrow> string \<Rightarrow> js_error + jsval" where
  "get_prop JNull name = Inl TypeError"
| "get_prop JUndefined name = Inl TypeError"
| "get_prop (JObj kvs) name = (case map_of kvs name of None \<Rightarrow> Inr JUndefined | Some v \<Rightarrow> Inr v)"
| "get_prop v name = Inr JUndefined"

subsection \<open>The server object\<close>

type_synonym WebSocket = nat

datatype readyState = CONNECTING | OPEN | CLOSING | CLOSED

text \<open>
  A handler is a callback of the host: it resolves, or it throws or rejects with a value,
  given as in \<open>HandlerError\<close> by its conversion to a string.
\<close>

datatype outcome = Resolved | Rejected "string option"

type_synonym WebServerMessageHandler = "jsval \<Rightarrow> outcome"
type_synonym WebServerToolbarActionHandler = "jsval \<Rightarrow> outcome"

text \<open>The lines written to the output channel, by the template that produces them.\<close>

datatype log_line =
    LogAlreadyRunning
  | LogClientConnected nat
  | LogClientDisconnected nat
  | LogWebSocketError string
  | LogMessageError js_error
  | LogStarted jsnumber
  | LogStopped
  | LogServeFileError string string

text \<open>
  The fields of the class.  \<open>httpServer\<close> is \<open>None\<close> for \<^verbatim>\<open>null\<close> and otherwise
  holds the server's \<^verbatim>\<open>listening\<close> flag; \<open>clients\<close> is the \<^verbatim>\<open>Set\<close> in its
  insertion order, which is the order a \<^verbatim>\<open>for ... of\<close> visits it in.
\<close>

record web_server =
  httpServer :: "bool option"
  wss :: "unit option"
  clients :: "WebSocket list"
  messageHandler :: "WebServerMessageHandler option"
  toolbarActionHandler :: "WebServerToolbarActionHandler option"
  outputChannel :: "log_line list"
  port :: jsnumber
  password :: string

definition DEFAULT_WEB_SERVER_PORT :: jsnumber where
  "DEFAULT_WEB_SERVER_PORT = Finite 30000"

text \<open>The object the constructor leaves.\<close>

definition new_WebServer :: web_server where
  "new_WebServer =
     \<lparr> httpServer = None, wss = None, clients = [], messageHandler = None,
       toolbarActionHandler = None, outputChannel = [],
       port = DEFAULT_WEB_SERVER_PORT, password = [] \<rparr>"

definition appendLine :: "log_line \<Rightarrow> web_server \<Rightarrow> web_server" where
  "appendLine l s = s\<lparr>outputChannel := outputChannel s @ [l]\<rparr>"

definition getPort :: "web_server \<Rightarrow> jsnumber" where
  "getPort s = port s"

text \<open>
  \<^verbatim>\<open>configure(port, password)\<close>.  The password argument is \<open>None\<close> for \<^verbatim>\<open>null\<close> or
  \<^verbatim>\<open>undefined\<close>, which \<^verbatim>\<open>??\<close> replaces by the empty string.
\<close>

definition configure :: "jsnumber \<Rightarrow> string option \<Rightarrow> web_server \<Rightarrow> web_server" where
  "configure p pw s =
     s\<lparr> port := (if gt_zero p then p else DEFAULT_WEB_SERVER_PORT),
        password := (case pw of None \<Rightarrow> [] | Some w \<Rightarrow> w) \<rparr>"

definition setMessageHandler :: "WebServerMessageHandler \<Rightarrow> web_server \<Rightarrow> web_server" where
  "setMessageHandler h s = s\<lparr>messageHandler := Some h\<rparr>"

definition setToolbarActionHandler ::
  "WebServerToolbarActionHandler \<Rightarrow> web_server \<Rightarrow> web_server" where
  "setToolbarActionHandler h s = s\<lparr>toolbarActionHandler := Some h\<rparr>"

definition isRunning :: "web_server \<Rightarrow> bool" where
  "isRunning s = (httpServer s \<noteq> None \<and> httpServer s = Some True)"

text \<open>
  \<^verbatim>\<open>start()\<close>.  Whether the listener binds is the operating system's answer, the
  argument \<open>listen\<close>: \<open>None\<close> when the socket is bound, the error otherwise.  The
  result pairs the server with the error that leaves \<^verbatim>\<open>start\<close>, if any.  A failure
  writes no line: where \<^verbatim>\<open>listen\<close> throws (a port that is no integer), the promise
  rejects at once; where the listener emits \<^verbatim>\<open>error\<close> (a port in use), the
  WebSocket server, whose listener for that event was registered first, emits it again
  with nobody listening, which throws before the listener of \<^verbatim>\<open>start\<close> runs.
\<close>

definition start :: "string option \<Rightarrow> web_server \<Rightarrow> web_server \<times> js_error option" where
  "start listen s =
     (if isRunning s then (appendLine LogAlreadyRunning s, None)
      else
        (case listen of
           None \<Rightarrow>
             (appendLine (LogStarted (port s)) (s\<lparr>httpServer := Some True, wss := Some ()\<rparr>),
              None)
         | Some err \<Rightarrow>
             (s\<lparr>httpServer := Some False, wss := Some ()\<rparr>, Some (ListenError err))))"

text \<open>The spec's reading of the port check: a finite, whole, positive number.\<close>

fun is_positive_integer :: "jsnumber \<Rightarrow> bool" where
  "is_positive_integer (Finite r) = (0 < r \<and> of_int \<lfloor>r\<rfloor> = r)"
| "is_positive_integer n = False"

subsection \<open>What the server does to the outside world\<close>

text \<open>
  Calls that leave the class are recorded in the order they are made: a handler of the
  host invoked with its argument, a frame written to a socket, a socket terminated.
\<close>

datatype effect =
    CallMessageHandler jsval
  | CallToolbarActionHandler jsval
  | Send WebSocket string
  | Terminate WebSocket

text \<open>\<^verbatim>\<open>Set.prototype.add\<close> and \<^verbatim>\<open>Set.prototype.delete\<close> on the insertion-ordered set.\<close>

definition Set_add :: "'a \<Rightarrow> 'a list \<Rightarrow> 'a list" where
  "Set_add x xs = (if x \<in> set xs then xs else xs @ [x])"

definition Set_delete :: "'a \<Rightarrow> 'a list \<Rightarrow> 'a list" where
  "Set_delete x xs = removeAll x xs"

subsection \<open>Broadcast\<close>

text \<open>The object literal \<^verbatim>\<open>{ type: "extension-message", payload: message }\<close>.\<close>

definition envelope :: "jsval \<Rightarrow> jsval" where
  "envelope message = JObj [(''type'', JStr ''extension-message''), (''payload'', message)]"

text \<open>
  The loop of \<^verbatim>\<open>broadcastToClients\<close> over the registry; \<open>rs\<close> gives each socket's
  \<^verbatim>\<open>readyState\<close> when the loop reaches it.
\<close>

fun send_each :: "(WebSocket \<Rightarrow> readyState) \<Rightarrow> string \<Rightarrow> WebSocket list \<Rightarrow> effect list" where
  "send_each rs data [] = []"
| "send_each rs data (client # rest) =
     (if rs client = OPEN then Send client data # send_each rs data rest
      else send_each rs data rest)"

text \<open>
  \<^verbatim>\<open>broadcastToClients(message)\<close>.  \<open>stringify\<close> is \<^verbatim>\<open>JSON.stringify\<close>, \<open>None\<close>
  where it throws.  The result is the server afterwards, the frames written, and the
  exception that leaves the method, if any.
\<close>

definition broadcastToClients ::
  "(jsval \<Rightarrow> string option) \<Rightarrow> (WebSocket \<Rightarrow> readyState) \<Rightarrow> jsval \<Rightarrow> web_server
     \<Rightarrow> web_server \<times> effect list \<times> js_error option" where
  "broadcastToClients stringify rs message s =
     (if length (clients s) = 0 then (s, [], None)
      else
        (case stringify (envelope message) of
           None \<Rightarrow> (s, [], Some SerializeError)
         | Some data \<Rightarrow> (s, send_each rs data (clients s), None)))"

subsection \<open>Connection lifecycle and inbound frames\<close>

definition on_connection :: "WebSocket \<Rightarrow> web_server \<Rightarrow> web_server" where
  "on_connection ws s =
     (let s1 = s\<lparr>clients := Set_add ws (clients s)\<rparr>
      in appendLine (LogClientConnected (length (clients s1))) s1)"

definition on_close :: "WebSocket \<Rightarrow> web_server \<Rightarrow> web_server" where
  "on_close ws s =
     (let s1 = s\<lparr>clients := Set_delete ws (clients s)\<rparr>
      in appendLine (LogClientDisconnected (length (clients s1))) s1)"

definition on_error :: "WebSocket \<Rightarrow> string \<Rightarrow> web_server \<Rightarrow> web_server" where
  "on_error ws err s =
     (let s1 = appendLine (LogWebSocketError err) s
      in s1\<lparr>clients := Set_delete ws (clients s1)\<rparr>)"

text \<open>
  The first guarded dispatch of the message listener,
  \<^verbatim>\<open>parsed.type === "webview-message" && parsed.payload && this.messageHandler\<close>,
  evaluated left to right.  The result is the handler calls made and the exception
  thrown, if any.
\<close>

definition dispatch_webview_message :: "web_server \<Rightarrow> jsval \<Rightarrow> effect list \<times> js_error option" where
  "dispatch_webview_message s parsed =
     (case get_prop parsed ''type'' of
        Inl e \<Rightarrow> ([], Some e)
      | Inr ty \<Rightarrow>
          if ty = JStr ''webview-message'' then
            (case get_prop parsed ''payload'' of
               Inl e \<Rightarrow> ([], Some e)
             | Inr pl \<Rightarrow>
                 if truthy pl then
                   (case messageHandler s of
                      None \<Rightarrow> ([], None)
                    | Some handler \<Rightarrow>
                        ([CallMessageHandler pl],
                         case handler pl of
                           Resolved \<Rightarrow> None
                         | Rejected msg \<Rightarrow> Some (HandlerError msg)))
                 else ([], None))
          else ([], None))"

text \<open>
  The second,
  \<^verbatim>\<open>parsed.type === "toolbar-action" && parsed.action && this.toolbarActionHandler\<close>.
\<close>

definition dispatch_toolbar_action :: "web_server \<Rightarrow> jsval \<Rightarrow> effect list \<times> js_error option" where
  "dispatch_toolbar_action s parsed =
     (case get_prop parsed ''type'' of
        Inl e \<Rightarrow> ([], Some e)
      | Inr ty \<Rightarrow>
          if ty = JStr ''toolbar-action'' then
            (case get_prop parsed ''action'' of
               Inl e \<Rightarrow> ([], Some e)
             | Inr act \<Rightarrow>
                 if truthy act then
                   (case toolbarActionHandler s of
                      None \<Rightarrow> ([], None)
                    | Some handler \<Rightarrow>
                        ([CallToolbarActionHandler act],
                         case handler act of
                           Resolved \<Rightarrow> None
                         | Rejected msg \<Rightarrow> Some (HandlerError msg)))
                 else ([], None))
          else ([], None))"

text \<open>
  The \<^verbatim>\<open>try\<close> block of the listener.  \<open>parse\<close> is \<^verbatim>\<open>JSON.parse\<close> on the frame's
  text, \<open>None\<close> where it throws.  An exception ends the block where it is thrown.
\<close>

definition try_dispatch ::
  "(string \<Rightarrow> jsval option) \<Rightarrow> web_server \<Rightarrow> string \<Rightarrow> effect list \<times> js_error option" where
  "try_dispatch parse s data =
     (case parse data of
        None \<Rightarrow> ([], Some SyntaxError)
      | Some parsed \<Rightarrow>
          (case dispatch_webview_message s parsed of
             (calls, Some e) \<Rightarrow> (calls, Some e)
           | (calls, None) \<Rightarrow>
               (case dispatch_toolbar_action s parsed of
                  (calls', r) \<Rightarrow> (calls @ calls', r))))"

text \<open>
  \<^verbatim>\<open>`${err}`\<close> in the \<^verbatim>\<open>catch\<close>: whether the caught value converts to a string.
  The errors the \<^verbatim>\<open>try\<close> block raises by itself are \<^verbatim>\<open>Error\<close> objects, which do.
\<close>

fun has_string_conversion :: "js_error \<Rightarrow> bool" where
  "has_string_conversion (HandlerError None) = False"
| "has_string_conversion e = True"

text \<open>
  The listener \<^verbatim>\<open>ws.on("message", ...)\<close>: the \<^verbatim>\<open>try\<close> block, and the \<^verbatim>\<open>catch\<close>,
  which converts what it caught to a string and writes one line to the output channel.
  Where the conversion throws, no line is written and the TypeError leaves the listener.
  The result is the server afterwards, the handler calls made, and the exception that
  leaves the listener (the rejection of the promise it returns), if any.
\<close>

definition on_message ::
  "(string \<Rightarrow> jsval option) \<Rightarrow> string \<Rightarrow> web_server
     \<Rightarrow> web_server \<times> effect list \<times> js_error option" where
  "on_message parse data s =
     (case try_dispatch parse s data of
        (calls, None) \<Rightarrow> (s, calls, None)
      | (calls, Some err) \<Rightarrow>
          if has_string_conversion err then (appendLine (LogMessageError err) s, calls, None)
          else (s, calls, Some TypeError))"

text \<open>
  \<^verbatim>\<open>stop()\<close>.  \<open>close\<close> is what closing the HTTP listener reports: \<open>None\<close>, or the
  error the returned promise rejects with, before the last two statements run.
\<close>

definition stop :: "string option \<Rightarrow> web_server \<Rightarrow> web_server \<times> effect list \<times> js_error option" where
  "stop close s =
     (if \<not> isRunning s then (s, [], None)
      else
        (let terminated = map Terminate (clients s);
             s1 = s\<lparr>clients := [], wss := None\<rparr>
         in case close of
              Some err \<Rightarrow> (s1, terminated, Some (CloseError err))
            | None \<Rightarrow> (appendLine LogStopped (s1\<lparr>httpServer := None\<rparr>), terminated, None)))"

subsection \<open>Strings\<close>

text \<open>\<^verbatim>\<open>s.startsWith(p)\<close>; \<^verbatim>\<open>s.slice(n)\<close> for \<open>0 \<le> n\<close> is \<open>drop n s\<close>.\<close>

definition startsWith :: "string \<Rightarrow> string \<Rightarrow> bool" where
  "startsWith s p = (take (length p) s = p)"

text \<open>\<^verbatim>\<open>s.indexOf(c)\<close>: the first position of \<open>c\<close>, or \<open>-1\<close>.\<close>

fun indexOf :: "string \<Rightarrow> char \<Rightarrow> int" where
  "indexOf [] c = - 1"
| "indexOf (x # xs) c =
     (if x = c then 0 else (let i = indexOf xs c in if i < 0 then - 1 else i + 1))"

text \<open>\<^verbatim>\<open>s.toLowerCase()\<close> on the letters of ASCII.\<close>

definition toLowerCase :: "string \<Rightarrow> string" where
  "toLowerCase s =
     map (\<lambda>c. if c \<in> set ''ABCDEFGHIJKLMNOPQRSTUVWXYZ''
              then char_of (of_char c + (32::nat)) else c) s"

subsection \<open>HTTP requests and responses\<close>

text \<open>
  Of a request the server reads \<^verbatim>\<open>req.url\<close>, \<^verbatim>\<open>req.method\<close> (either may be
  \<^verbatim>\<open>undefined\<close>) and \<^verbatim>\<open>req.headers["authorization"]\<close>.
\<close>

record IncomingMessage =
  url :: "string option"
  req_method :: "string option"
  authorization :: "string option"

datatype content =
    NoContent
  | Text string
  | File string
  | BootstrapPage string string

record ServerResponse =
  statusCode :: nat
  headers :: "string \<rightharpoonup> string"
  body :: content
  finished :: bool

text \<open>The response Node hands the request listener: status 200, nothing set or written.\<close>

definition new_ServerResponse :: ServerResponse where
  "new_ServerResponse =
     \<lparr> statusCode = 200, headers = Map.empty, body = NoContent, finished = False \<rparr>"

definition setHeader :: "string \<Rightarrow> string \<Rightarrow> ServerResponse \<Rightarrow> ServerResponse" where
  "setHeader name v res = res\<lparr>headers := (headers res)(name \<mapsto> v)\<rparr>"

text \<open>\<^verbatim>\<open>res.writeHead(status, headers)\<close> merges its headers over those already set.\<close>

definition writeHead :: "nat \<Rightarrow> (string \<times> string) list \<Rightarrow> ServerResponse \<Rightarrow> ServerResponse" where
  "writeHead status hs res =
     res\<lparr>statusCode := status,
         headers := fold (\<lambda>(name, v) m. m(name \<mapsto> v)) hs (headers res)\<rparr>"

text \<open>\<^verbatim>\<open>res.end(chunk)\<close>, and \<^verbatim>\<open>res.end()\<close> with \<open>None\<close>.\<close>

definition end_response :: "content option \<Rightarrow> ServerResponse \<Rightarrow> ServerResponse" where
  "end_response chunk res =
     res\<lparr>body := (case chunk of None \<Rightarrow> body res | Some c \<Rightarrow> c), finished := True\<rparr>"

text \<open>
  What the request path takes from Node: \<^verbatim>\<open>path.join\<close>, \<^verbatim>\<open>path.extname\<close>,
  \<^verbatim>\<open>fs.existsSync\<close>, \<^verbatim>\<open>fs.readFileSync\<close> (\<open>Inl\<close> the error it throws), and
  \<^verbatim>\<open>Buffer.from(s, "base64").toString("utf-8")\<close>.
\<close>

record node =
  path_join :: "string \<Rightarrow> string \<Rightarrow> string"
  path_extname :: "string \<Rightarrow> string"
  existsSync :: "string \<Rightarrow> bool"
  readFileSync :: "string \<Rightarrow> string + string"
  base64_utf8 :: "string \<Rightarrow> string"

definition MIME_TYPES :: "(string \<times> string) list" where
  "MIME_TYPES =
     [(''.html'', ''text/html''),
      (''.js'', ''application/javascript''),
      (''.mjs'', ''application/javascript''),
      (''.css'', ''text/css''),
      (''.json'', ''application/json''),
      (''.png'', ''image/png''),
      (''.jpg'', ''image/jpeg''),
      (''.jpeg'', ''image/jpeg''),
      (''.gif'', ''image/gif''),
      (''.svg'', ''image/svg+xml''),
      (''.ico'', ''image/x-icon''),
      (''.woff'', ''font/woff''),
      (''.woff2'', ''font/woff2''),
      (''.ttf'', ''font/ttf''),
      (''.eot'', ''application/vnd.ms-fontobject''),
      (''.otf'', ''font/otf''),
      (''.wasm'', ''application/wasm''),
      (''.mp3'', ''audio/mpeg''),
      (''.wav'', ''audio/wav''),
      (''.ogg'', ''audio/ogg'')]"

subsection \<open>The access guard\<close>

text \<open>
  \<^verbatim>\<open>checkBasicAuth(req, res)\<close>: the boolean it returns and the response afterwards.
  \<^verbatim>\<open>!this.password\<close> holds of the empty string only.
\<close>

definition checkBasicAuth ::
  "node \<Rightarrow> web_server \<Rightarrow> IncomingMessage \<Rightarrow> ServerResponse \<Rightarrow> bool \<times> ServerResponse" where
  \<open>checkBasicAuth N s req res =
     (if password s = [] then (True, res)
      else
        (let accepted =
           (case authorization req of
              None \<Rightarrow> False
            | Some authHeader \<Rightarrow>
                if authHeader \<noteq> [] \<and> startsWith authHeader ''Basic '' then
                  (let encoded = drop (length ''Basic '') authHeader;
                       decoded = base64_utf8 N encoded;
                       colonIdx = indexOf decoded (CHR '':'');
                       providedPassword =
                         (if colonIdx \<ge> 0 then drop (nat (colonIdx + 1)) decoded else decoded)
                   in providedPassword = password s)
                else False)
         in if accepted then (True, res)
            else
              (False,
               end_response (Some (Text ''Unauthorized''))
                 (writeHead 401 [(''Content-Type'', ''text/plain'')]
                   (setHeader ''WWW-Authenticate'' ''Basic realm="Roo Code"'' res)))))\<close>

subsection \<open>Serving\<close>

text \<open>
  \<^verbatim>\<open>serveFile(res, filePath)\<close>.  Of the \<^verbatim>\<open>try\<close> block only \<^verbatim>\<open>readFileSync\<close> throws
  (\<^verbatim>\<open>existsSync\<close> answers \<^verbatim>\<open>false\<close> instead); the \<^verbatim>\<open>catch\<close> logs and answers 500.
\<close>

definition serveFile ::
  "node \<Rightarrow> string \<Rightarrow> ServerResponse \<Rightarrow> web_server \<Rightarrow> web_server \<times> ServerResponse" where
  "serveFile N filePath res s =
     (if \<not> existsSync N filePath then
        (s, end_response (Some (Text ''Not Found''))
              (writeHead 404 [(''Content-Type'', ''text/plain'')] res))
      else
        (let ext = toLowerCase (path_extname N filePath);
             contentType =
               (case map_of MIME_TYPES ext of
                  None \<Rightarrow> ''application/octet-stream''
                | Some t \<Rightarrow> t)
         in case readFileSync N filePath of
              Inr content \<Rightarrow>
                (s, end_response (Some (File content))
                      (writeHead 200 [(''Content-Type'', contentType)] res))
            | Inl err \<Rightarrow>
                (appendLine (LogServeFileError filePath err) s,
                 end_response (Some (Text ''Internal Server Error''))
                   (writeHead 500 [(''Content-Type'', ''text/plain'')] res))))"

text \<open>
  \<^verbatim>\<open>serveIndexHtml(res, buildDir)\<close>.  The document is the fixed template with its two
  interpolations, \<^verbatim>\<open>cssFile\<close> and \<^verbatim>\<open>jsFile\<close>, which \<open>BootstrapPage\<close> carries.
  Nothing in its \<^verbatim>\<open>try\<close> block throws, so the \<^verbatim>\<open>catch\<close> has no branch here.
\<close>

definition serveIndexHtml :: "node \<Rightarrow> string \<Rightarrow> ServerResponse \<Rightarrow> ServerResponse" where
  "serveIndexHtml N buildDir res =
     (let assetsDir = path_join N buildDir ''assets'';
          jsFile = (if existsSync N (path_join N assetsDir ''index.js'')
                    then ''/assets/index.js'' else []);
          cssFile = (if existsSync N (path_join N assetsDir ''index.css'')
                     then ''/assets/index.css'' else [])
      in end_response (Some (BootstrapPage cssFile jsFile))
           (writeHead 200 [(''Content-Type'', ''text/html'')] res))"

text \<open>
  \<^verbatim>\<open>handleRequest(req, res, buildDir, assetsDir, audioDir)\<close>.
  \<^verbatim>\<open>url.split("?")[0]\<close> is the text before the first question mark.
\<close>

definition handleRequest ::
  "node \<Rightarrow> string \<Rightarrow> string \<Rightarrow> string \<Rightarrow> IncomingMessage \<Rightarrow> ServerResponse \<Rightarrow> web_server
     \<Rightarrow> web_server \<times> ServerResponse" where
  "handleRequest N buildDir assetsDir audioDir req res0 s =
     (let url0 = (case url req of None \<Rightarrow> ''/'' | Some u \<Rightarrow> if u = [] then ''/'' else u);
          res = setHeader ''Access-Control-Allow-Headers'' ''Content-Type''
                  (setHeader ''Access-Control-Allow-Methods'' ''GET, OPTIONS''
                    (setHeader ''Access-Control-Allow-Origin'' ''*'' res0))
      in if req_method req = Some ''OPTIONS'' then (s, end_response None (writeHead 204 [] res))
         else
           (case checkBasicAuth N s req res of
              (False, res1) \<Rightarrow> (s, res1)
            | (True, res1) \<Rightarrow>
                (let urlPath = takeWhile (\<lambda>c. c \<noteq> CHR ''?'') url0
                 in if startsWith urlPath ''/ext-assets/'' then
                      serveFile N
                        (path_join N assetsDir (drop (length ''/ext-assets/'') urlPath)) res1 s
                    else if startsWith urlPath ''/audio/'' then
                      serveFile N
                        (path_join N audioDir (drop (length ''/audio/'') urlPath)) res1 s
                    else if urlPath = ''/'' \<or> path_extname N urlPath = [] then
                      (s, serveIndexHtml N buildDir res1)
                    else
                      (let filePath = path_join N buildDir urlPath
                       in if \<not> existsSync N filePath then (s, serveIndexHtml N buildDir res1)
                          else serveFile N filePath res1 s))))"

subsection \<open>Node on a POSIX system\<close>

text \<open>
  Where a theorem is evaluated at a concrete request, the parameters are the following:
  \<^verbatim>\<open>path.posix\<close> as Node documents it, a filesystem given by the list of its files, and
  base64 over the standard alphabet.
\<close>

fun splitOn :: "char \<Rightarrow> string \<Rightarrow> string list" where
  "splitOn c [] = [[]]"
| "splitOn c (x # xs) =
     (if x = c then [] # splitOn c xs
      else (case splitOn c xs of [] \<Rightarrow> [[x]] | w # ws \<Rightarrow> (x # w) # ws))"

fun join_with :: "string \<Rightarrow> string list \<Rightarrow> string" where
  "join_with sep [] = []"
| "join_with sep [w] = w"
| "join_with sep (w # ws) = w @ sep @ join_with sep ws"

text \<open>
  Node's \<^verbatim>\<open>normalizeString\<close>, segment by segment: empty and \<^verbatim>\<open>.\<close> segments are
  dropped, \<^verbatim>\<open>..\<close> removes the segment before it, or is kept where there is none to
  remove and the path is relative.
\<close>

fun normalizeString :: "bool \<Rightarrow> string list \<Rightarrow> string list \<Rightarrow> string list" where
  "normalizeString allowAboveRoot res [] = res"
| "normalizeString allowAboveRoot res (seg # segs) =
     (if seg = [] \<or> seg = ''.'' then normalizeString allowAboveRoot res segs
      else if seg = ''..'' then
        (if res \<noteq> [] \<and> last res \<noteq> ''..''
         then normalizeString allowAboveRoot (butlast res) segs
         else if allowAboveRoot then normalizeString allowAboveRoot (res @ [''..'']) segs
         else normalizeString allowAboveRoot res segs)
      else normalizeString allowAboveRoot (res @ [seg]) segs)"

definition posix_normalize :: "string \<Rightarrow> string" where
  "posix_normalize p =
     (if p = [] then ''.''
      else
        (let isAbsolute = (hd p = CHR ''/'');
             trailingSeparator = (last p = CHR ''/'');
             q = join_with ''/'' (normalizeString (\<not> isAbsolute) [] (splitOn (CHR ''/'') p))
         in if q = [] then
              (if isAbsolute then ''/'' else if trailingSeparator then ''./'' else ''.'')
            else (if isAbsolute then ''/'' else []) @ q
                   @ (if trailingSeparator then ''/'' else [])))"

definition posix_join :: "string \<Rightarrow> string \<Rightarrow> string" where
  "posix_join a b =
     (let joined = (if a = [] then b else if b = [] then a else a @ ''/'' @ b)
      in if joined = [] then ''.'' else posix_normalize joined)"

text \<open>
  \<^verbatim>\<open>path.posix.extname\<close>: of the last segment, trailing slashes aside, the text from its
  last dot on; empty when that segment has no dot, begins with its only dot, or is
  \<^verbatim>\<open>..\<close>.
\<close>

definition posix_extname :: "string \<Rightarrow> string" where
  "posix_extname p =
     (let stripped = rev (dropWhile (\<lambda>c. c = CHR ''/'') (rev p));
          base = rev (takeWhile (\<lambda>c. c \<noteq> CHR ''/'') (rev stripped));
          after = rev (takeWhile (\<lambda>c. c \<noteq> CHR ''.'') (rev base))
      in if CHR ''.'' \<notin> set base then []
         else if length after + 1 = length base then []
         else if base = ''..'' then []
         else CHR ''.'' # after)"

definition base64_alphabet :: string where
  "base64_alphabet = ''ABCDEFGHIJKLMNOPQRSTUVWXYZabcdefghijklmnopqrstuvwxyz0123456789+/''"

fun position :: "char \<Rightarrow> string \<Rightarrow> nat option" where
  "position c [] = None"
| "position c (x # xs) = (if x = c then Some 0 else map_option Suc (position c xs))"

text \<open>The six bits of a character: Node reads the URL-safe \<^verbatim>\<open>-\<close> and \<^verbatim>\<open>_\<close> too.\<close>

definition sextet :: "char \<Rightarrow> nat option" where
  "sextet c =
     (if c = CHR ''-'' then Some 62 else if c = CHR ''_'' then Some 63
      else position c base64_alphabet)"

fun sextets_to_bytes :: "nat list \<Rightarrow> string" where
  "sextets_to_bytes (a # b # c # d # rest) =
     char_of (a * 4 + b div 16) # char_of ((b mod 16) * 16 + c div 4)
       # char_of ((c mod 4) * 64 + d) # sextets_to_bytes rest"
| "sextets_to_bytes [a, b, c] =
     [char_of (a * 4 + b div 16), char_of ((b mod 16) * 16 + c div 4)]"
| "sextets_to_bytes [a, b] = [char_of (a * 4 + b div 16)]"
| "sextets_to_bytes _ = []"

text \<open>
  The bytes a base64 text encodes, up to its padding.  Of the UTF-8 decoding that
  follows only the part on ASCII bytes is here, where it changes nothing; credentials
  with other bytes are outside this function.
\<close>

definition base64_decode :: "string \<Rightarrow> string" where
  "base64_decode t =
     sextets_to_bytes (List.map_filter sextet (takeWhile (\<lambda>c. c \<noteq> CHR ''='') t))"

text \<open>
  A filesystem given by its regular files, each an absolute path with its content.  A
  directory is there when a file lies under it, and the root always is; a directory
  exists and cannot be read as a file.
\<close>

definition is_directory :: "(string \<times> string) list \<Rightarrow> string \<Rightarrow> bool" where
  "is_directory files p =
     (let stripped = rev (dropWhile (\<lambda>c. c = CHR ''/'') (rev p))
      in (p \<noteq> [] \<and> stripped = [])
         \<or> list_ex (\<lambda>(f, c). startsWith f (stripped @ ''/'')) files)"

definition posix_node :: "(string \<times> string) list \<Rightarrow> node" where
  "posix_node files =
     \<lparr> path_join = posix_join,
       path_extname = posix_extname,
       existsSync = (\<lambda>p. case map_of files p of Some c \<Rightarrow> True | None \<Rightarrow> is_directory files p),
       readFileSync =
         (\<lambda>p. case map_of files p of
                Some c \<Rightarrow> Inr c
              | None \<Rightarrow> if is_directory files p then Inl ''EISDIR'' else Inl ''ENOENT''),
       base64_utf8 = base64_decode \<rparr>"

subsection \<open>Notions the properties are stated with\<close>

text \<open>
  The path of a request as \<^verbatim>\<open>handleRequest\<close> computes it: \<^verbatim>\<open>req.url || "/"\<close> up to
  its query string.
\<close>

definition urlPath_of :: "IncomingMessage \<Rightarrow> string" where
  "urlPath_of req =
     takeWhile (\<lambda>c. c \<noteq> CHR ''?'')
       (case url req of None \<Rightarrow> ''/'' | Some u \<Rightarrow> if u = [] then ''/'' else u)"

text \<open>The three headers \<^verbatim>\<open>handleRequest\<close> sets first, on a response.\<close>

definition cors :: "ServerResponse \<Rightarrow> ServerResponse" where
  "cors res =
     setHeader ''Access-Control-Allow-Headers'' ''Content-Type''
       (setHeader ''Access-Control-Allow-Methods'' ''GET, OPTIONS''
         (setHeader ''Access-Control-Allow-Origin'' ''*'' res))"

text \<open>
  The spec's password part of decoded credentials: the text after the first colon, or
  the whole text if it has no colon.
\<close>

definition password_suffix :: "string \<Rightarrow> string" where
  "password_suffix decoded =
     (if CHR '':'' \<in> set decoded then tl (dropWhile (\<lambda>c. c \<noteq> CHR '':'') decoded)
      else decoded)"

text \<open>The response of the guard to a request it refuses, built on \<open>res\<close>.\<close>

definition unauthorized :: "ServerResponse \<Rightarrow> ServerResponse" where
  \<open>unauthorized res =
     res\<lparr> statusCode := 401,
          headers := (headers res)(''WWW-Authenticate'' \<mapsto> ''Basic realm="Roo Code"'',
                                   ''Content-Type'' \<mapsto> ''text/plain''),
          body := Text ''Unauthorized'',
          finished := True \<rparr>\<close>

text \<open>The calls of an effect list that reach the message handler, in order.\<close>

fun is_message_call :: "effect \<Rightarrow> bool" where
  "is_message_call (CallMessageHandler v) = True"
| "is_message_call e = False"

fun is_handler_call :: "effect \<Rightarrow> bool" where
  "is_handler_call (CallMessageHandler v) = True"
| "is_handler_call (CallToolbarActionHandler v) = True"
| "is_handler_call e = False"

text \<open>
  \<^verbatim>\<open>JSON.parse\<close> given by a table of frame texts and their values; it throws on any other
  text.  Three handlers of the host: one that resolves, one that rejects with an
  \<^verbatim>\<open>Error\<close>, one that rejects with a \<^verbatim>\<open>Symbol\<close>.
\<close>

definition parse_table :: "(string \<times> jsval) list \<Rightarrow> string \<Rightarrow> jsval option" where
  "parse_table t = map_of t"

definition resolving :: "jsval \<Rightarrow> outcome" where
  "resolving v = Resolved"

definition rejecting :: "jsval \<Rightarrow> outcome" where
  "rejecting v = Rejected (Some ''Error: boom'')"

definition rejecting_with_symbol :: "jsval \<Rightarrow> outcome" where
  "rejecting_with_symbol v = Rejected None"

text \<open>\<^verbatim>\<open>JSON.stringify\<close> that throws on every value, and one given by a table.\<close>

definition stringify_throws :: "jsval \<Rightarrow> string option" where
  "stringify_throws v = None"

definition stringify_table :: "(jsval \<times> string) list \<Rightarrow> jsval \<Rightarrow> string option" where
  "stringify_table t = map_of t"

text \<open>Socket states given by the list of the sockets that are open; the others are closed.\<close>

definition open_sockets :: "WebSocket list \<Rightarrow> WebSocket \<Rightarrow> readyState" where
  "open_sockets ws c = (if c \<in> set ws then OPEN else CLOSED)"

fun is_bootstrap_page :: "content \<Rightarrow> bool" where
  "is_bootstrap_page (BootstrapPage cssFile jsFile) = True"
| "is_bootstrap_page c = False"

text \<open>
  A server configured with the password \<^verbatim>\<open>secret\<close>, and a \<^verbatim>\<open>GET\<close> request given by
  its URL and its \<^verbatim>\<open>Authorization\<close> header, for evaluating the properties.
\<close>

definition secret_server :: web_server where
  "secret_server = configure (Finite 30000) (Some ''secret'') new_WebServer"

definition get_request :: "string \<Rightarrow> string option \<Rightarrow> IncomingMessage" where
  "get_request u auth = \<lparr> url = Some u, req_method = Some ''GET'', authorization = auth \<rparr>"

section \<open>Auxiliary facts\<close>

lemma indexOf_nonneg_iff: "0 \<le> indexOf d c \<longleftrightarrow> c \<in> set d"
  by (induction d) (auto simp: Let_def)

lemma indexOf_ge: "- 1 \<le> indexOf d c"
  by (induction d) (auto simp: Let_def)

lemma drop_indexOf:
  "c \<in> set d \<Longrightarrow> drop (nat (indexOf d c + 1)) d = tl (dropWhile (\<lambda>x. x \<noteq> c) d)"
proof (induction d)
  case Nil
  then show ?case by simp
next
  case (Cons x xs)
  show ?case
  proof (cases "x = c")
    case True
    then show ?thesis by simp
  next
    case False
    with Cons.prems have mem: "c \<in> set xs" by simp
    then have nn: "0 \<le> indexOf xs c" by (simp add: indexOf_nonneg_iff)
    then have "nat (indexOf xs c + 1 + 1) = Suc (nat (indexOf xs c + 1))" by simp
    with False nn Cons.IH [OF mem] show ?thesis by (simp add: Let_def)
  qed
qed

lemma providedPassword_eq:
  "(if indexOf d (CHR '':'') \<ge> 0 then drop (nat (indexOf d (CHR '':'') + 1)) d else d)
     = password_suffix d"
  by (simp add: password_suffix_def indexOf_nonneg_iff drop_indexOf)

lemma checkBasicAuth_fst:
  "fst (checkBasicAuth N s req res) \<longleftrightarrow>
     (password s = [] \<or>
      (\<exists>h. authorization req = Some h \<and> startsWith h ''Basic ''
           \<and> password_suffix (base64_utf8 N (drop (length ''Basic '') h)) = password s))"
  unfolding checkBasicAuth_def Let_def providedPassword_eq
  by (auto simp: startsWith_def split: option.splits)

lemma checkBasicAuth_snd:
  "snd (checkBasicAuth N s req res) =
     (if fst (checkBasicAuth N s req res) then res else unauthorized res)"
  by (simp add: checkBasicAuth_def Let_def unauthorized_def setHeader_def writeHead_def
      end_response_def)

lemma checkBasicAuth_fst_res:
  "fst (checkBasicAuth N s req res) = fst (checkBasicAuth N s req res')"
  by (simp add: checkBasicAuth_fst)

lemma handleRequest_cases:
  "handleRequest N buildDir assetsDir audioDir req res0 s =
     (if req_method req = Some ''OPTIONS'' then (s, end_response None (writeHead 204 [] (cors res0)))
      else if \<not> fst (checkBasicAuth N s req res0) then (s, unauthorized (cors res0))
      else if startsWith (urlPath_of req) ''/ext-assets/'' then
        serveFile N (path_join N assetsDir (drop (length ''/ext-assets/'') (urlPath_of req)))
          (cors res0) s
      else if startsWith (urlPath_of req) ''/audio/'' then
        serveFile N (path_join N audioDir (drop (length ''/audio/'') (urlPath_of req)))
          (cors res0) s
      else if urlPath_of req = ''/'' \<or> path_extname N (urlPath_of req) = [] then
        (s, serveIndexHtml N buildDir (cors res0))
      else if \<not> existsSync N (path_join N buildDir (urlPath_of req)) then
        (s, serveIndexHtml N buildDir (cors res0))
      else serveFile N (path_join N buildDir (urlPath_of req)) (cors res0) s)"
proof -
  obtain ok res1 where c: "checkBasicAuth N s req (cors res0) = (ok, res1)"
    by (cases "checkBasicAuth N s req (cors res0)")
  have ok: "ok = fst (checkBasicAuth N s req res0)"
    using c checkBasicAuth_fst_res [of N s req "cors res0" res0] by simp
  have res1: "res1 = (if ok then cors res0 else unauthorized (cors res0))"
    using c checkBasicAuth_snd [of N s req "cors res0"] by simp
  show ?thesis
    unfolding handleRequest_def Let_def cors_def [symmetric] urlPath_of_def [symmetric] c
    using ok res1 by (cases ok) simp_all
qed

lemma unauthorized_simps:
  "statusCode (unauthorized res) = 401"
  "body (unauthorized res) = Text ''Unauthorized''"
  "finished (unauthorized res) = True"
  \<open>headers (unauthorized res) ''WWW-Authenticate'' = Some ''Basic realm="Roo Code"''\<close>
  "headers (unauthorized res) ''Content-Type'' = Some ''text/plain''"
  "headers (unauthorized res) ''Access-Control-Allow-Origin'' = headers res ''Access-Control-Allow-Origin''"
  "headers (unauthorized res) ''Access-Control-Allow-Methods'' = headers res ''Access-Control-Allow-Methods''"
  "headers (unauthorized res) ''Access-Control-Allow-Headers'' = headers res ''Access-Control-Allow-Headers''"
  by (simp_all add: unauthorized_def)

lemma cors_simps:
  "headers (cors res) ''Access-Control-Allow-Origin'' = Some ''*''"
  "headers (cors res) ''Access-Control-Allow-Methods'' = Some ''GET, OPTIONS''"
  "headers (cors res) ''Access-Control-Allow-Headers'' = Some ''Content-Type''"
  "statusCode (cors res) = statusCode res"
  "body (cors res) = body res"
  "finished (cors res) = finished res"
  by (simp_all add: cors_def setHeader_def)

lemma serveIndexHtml_simps:
  "statusCode (serveIndexHtml N buildDir res) = 200"
  "is_bootstrap_page (body (serveIndexHtml N buildDir res))"
  "finished (serveIndexHtml N buildDir res)"
  "headers (serveIndexHtml N buildDir res) ''Content-Type'' = Some ''text/html''"
  "name \<noteq> ''Content-Type'' \<Longrightarrow> headers (serveIndexHtml N buildDir res) name = headers res name"
  by (simp_all add: serveIndexHtml_def Let_def writeHead_def end_response_def)

lemma serveFile_headers:
  "name \<noteq> ''Content-Type'' \<Longrightarrow> headers (snd (serveFile N p res s)) name = headers res name"
  by (simp add: serveFile_def Let_def writeHead_def end_response_def split: sum.splits)

lemma serveFile_absent:
  "\<not> existsSync N p \<Longrightarrow>
     serveFile N p res s =
       (s, res\<lparr>statusCode := 404, headers := (headers res)(''Content-Type'' \<mapsto> ''text/plain''),
              body := Text ''Not Found'', finished := True\<rparr>)"
  by (simp add: serveFile_def writeHead_def end_response_def)

lemma serveFile_present:
  "existsSync N p \<Longrightarrow> statusCode (snd (serveFile N p res s)) \<in> {200, 500}"
  by (simp add: serveFile_def Let_def writeHead_def end_response_def split: sum.splits)

lemma handleRequest_OPTIONS:
  "req_method req = Some ''OPTIONS'' \<Longrightarrow>
     handleRequest N buildDir assetsDir audioDir req res0 s
       = (s, end_response None (writeHead 204 [] (cors res0)))"
  by (simp add: handleRequest_cases)

lemma handleRequest_keeps_header:
  assumes "name \<noteq> ''Content-Type''" and "name \<noteq> ''WWW-Authenticate''"
  shows "headers (snd (handleRequest N buildDir assetsDir audioDir req res0 s)) name
           = headers (cors res0) name"
proof (cases "req_method req = Some ''OPTIONS''")
  case True
  then show ?thesis
    by (simp add: handleRequest_OPTIONS writeHead_def end_response_def)
next
  case False
  then show ?thesis
    using assms
    by (simp add: handleRequest_cases serveIndexHtml_simps serveFile_headers unauthorized_def)
qed

lemma send_each_eq:
  "send_each rs data cs = map (\<lambda>c. Send c data) (filter (\<lambda>c. rs c = OPEN) cs)"
  by (induction cs) simp_all

lemma dispatch_webview_message_calls:
  "fst (dispatch_webview_message s parsed) =
     (case get_prop parsed ''type'' of
        Inl e \<Rightarrow> []
      | Inr ty \<Rightarrow>
          (case get_prop parsed ''payload'' of
             Inl e \<Rightarrow> []
           | Inr p \<Rightarrow>
               if ty = JStr ''webview-message'' \<and> truthy p \<and> messageHandler s \<noteq> None
               then [CallMessageHandler p] else []))"
  by (auto simp: dispatch_webview_message_def split: sum.splits option.splits)

lemma dispatch_toolbar_action_calls:
  "fst (dispatch_toolbar_action s parsed) =
     (case get_prop parsed ''type'' of
        Inl e \<Rightarrow> []
      | Inr ty \<Rightarrow>
          (case get_prop parsed ''action'' of
             Inl e \<Rightarrow> []
           | Inr a \<Rightarrow>
               if ty = JStr ''toolbar-action'' \<and> truthy a \<and> toolbarActionHandler s \<noteq> None
               then [CallToolbarActionHandler a] else []))"
  by (auto simp: dispatch_toolbar_action_def split: sum.splits option.splits)

lemma try_dispatch_calls:
  "fst (try_dispatch parse s data) =
     (case parse data of
        None \<Rightarrow> []
      | Some parsed \<Rightarrow>
          fst (dispatch_webview_message s parsed) @
          (if snd (dispatch_webview_message s parsed) = None
           then fst (dispatch_toolbar_action s parsed) else []))"
  by (auto simp: try_dispatch_def split: option.splits prod.splits)

lemma on_message_calls: "fst (snd (on_message parse data s)) = fst (try_dispatch parse s data)"
  by (auto simp: on_message_def split: prod.splits option.splits)

lemma on_message_state:
  "fst (on_message parse data s) =
     (case snd (try_dispatch parse s data) of
        None \<Rightarrow> s
      | Some err \<Rightarrow>
          if has_string_conversion err then appendLine (LogMessageError err) s else s)"
  by (auto simp: on_message_def split: prod.splits option.splits)

lemma on_message_escapes:
  "snd (snd (on_message parse data s)) =
     (case snd (try_dispatch parse s data) of
        None \<Rightarrow> None
      | Some err \<Rightarrow> if has_string_conversion err then None else Some TypeError)"
  by (auto simp: on_message_def split: prod.splits option.splits)

lemma appendLine_outputChannel: "outputChannel (appendLine l s) = outputChannel s @ [l]"
  by (simp add: appendLine_def)

lemma gt_zero_positive_integer: "is_positive_integer p \<Longrightarrow> gt_zero p"
  by (cases p) simp_all

lemma start_port: "port (fst (start listen s)) = port s"
  by (simp add: start_def appendLine_def split: option.splits)

lemma get_prop_JObj:
  "get_prop (JObj kvs) name = Inr (case map_of kvs name of None \<Rightarrow> JUndefined | Some v \<Rightarrow> v)"
  by (simp split: option.splits)

lemma try_dispatch_handlers:
  "messageHandler s = messageHandler s' \<Longrightarrow> toolbarActionHandler s = toolbarActionHandler s'
     \<Longrightarrow> try_dispatch parse s data = try_dispatch parse s' data"
proof -
  assume m: "messageHandler s = messageHandler s'"
    and t: "toolbarActionHandler s = toolbarActionHandler s'"
  have "dispatch_webview_message s parsed = dispatch_webview_message s' parsed" for parsed
    unfolding dispatch_webview_message_def m ..
  moreover have "dispatch_toolbar_action s parsed = dispatch_toolbar_action s' parsed" for parsed
    unfolding dispatch_toolbar_action_def t ..
  ultimately show ?thesis
    by (cases "parse data") (simp_all add: try_dispatch_def)
qed

lemma on_message_frame:
  "clients (fst (on_message parse data s)) = clients s"
  "httpServer (fst (on_message parse data s)) = httpServer s"
  "wss (fst (on_message parse data s)) = wss s"
  "messageHandler (fst (on_message parse data s)) = messageHandler s"
  "toolbarActionHandler (fst (on_message parse data s)) = toolbarActionHandler s"
  by (simp_all add: on_message_state appendLine_def split: option.splits)

lemma handler_calls_only: "list_all is_handler_call (fst (snd (on_message parse data s)))"
  by (auto simp: on_message_calls try_dispatch_calls dispatch_webview_message_calls
      dispatch_toolbar_action_calls split: option.splits sum.splits)

lemma on_message_parse_failure:
  "parse data = None \<Longrightarrow>
     on_message parse data s = (appendLine (LogMessageError SyntaxError) s, [], None)"
  by (simp add: on_message_def try_dispatch_def)

lemma on_message_webview:
  assumes "parse data = Some (JObj kvs)"
    and "map_of kvs ''type'' = Some (JStr ''webview-message'')"
    and "map_of kvs ''payload'' = Some p"
    and "truthy p"
    and "messageHandler s = Some h"
  shows "on_message parse data s =
           (case h p of
              Resolved \<Rightarrow> (s, [CallMessageHandler p], None)
            | Rejected (Some msg) \<Rightarrow>
                (appendLine (LogMessageError (HandlerError (Some msg))) s,
                 [CallMessageHandler p], None)
            | Rejected None \<Rightarrow> (s, [CallMessageHandler p], Some TypeError))"
  using assms
  by (simp add: on_message_def try_dispatch_def dispatch_webview_message_def
      dispatch_toolbar_action_def split: outcome.splits option.splits)

lemma on_message_toolbar:
  assumes "parse data = Some (JObj kvs)"
    and "map_of kvs ''type'' = Some (JStr ''toolbar-action'')"
    and "map_of kvs ''action'' = Some a"
    and "truthy a"
    and "toolbarActionHandler s = Some h"
  shows "on_message parse data s =
           (case h a of
              Resolved \<Rightarrow> (s, [CallToolbarActionHandler a], None)
            | Rejected (Some msg) \<Rightarrow>
                (appendLine (LogMessageError (HandlerError (Some msg))) s,
                 [CallToolbarActionHandler a], None)
            | Rejected None \<Rightarrow> (s, [CallToolbarActionHandler a], Some TypeError))"
  using assms
  by (simp add: on_message_def try_dispatch_def dispatch_webview_message_def
      dispatch_toolbar_action_def split: outcome.splits option.splits)

text \<open>
  What the listener does contain.  A frame that does not parse, and a handler that
  throws or rejects with a value that converts to a string, end in one more line on the
  output channel and in no exception; whatever the frame, the registry, the listening
  sockets and the handlers stay as they were and the only calls made are handler calls,
  so a later frame is dispatched as it would have been.
\<close>

lemma contained_failures:
  "(parse data = None \<longrightarrow>
      outputChannel (fst (on_message parse data s))
        = outputChannel s @ [LogMessageError SyntaxError]
      \<and> snd (snd (on_message parse data s)) = None)
   \<and> (parse data = Some (JObj kvs) \<and> map_of kvs ''type'' = Some (JStr ''webview-message'')
        \<and> map_of kvs ''payload'' = Some p \<and> truthy p \<and> messageHandler s = Some h
        \<and> h p = Rejected (Some msg) \<longrightarrow>
      outputChannel (fst (on_message parse data s))
        = outputChannel s @ [LogMessageError (HandlerError (Some msg))]
      \<and> snd (snd (on_message parse data s)) = None)
   \<and> fst (snd (on_message parse later (fst (on_message parse data s))))
       = fst (snd (on_message parse later s))"
proof -
  have same: "try_dispatch parse (fst (on_message parse data s)) later = try_dispatch parse s later"
    by (intro try_dispatch_handlers) (simp_all add: on_message_frame)
  have w: "on_message parse data s
             = (appendLine (LogMessageError (HandlerError (Some msg))) s,
                [CallMessageHandler p], None)"
    if "parse data = Some (JObj kvs)" "map_of kvs ''type'' = Some (JStr ''webview-message'')"
      "map_of kvs ''payload'' = Some p" "truthy p" "messageHandler s = Some h"
      "h p = Rejected (Some msg)"
    using on_message_webview [of parse data kvs p s h] that by simp
  show ?thesis
    using w by (auto simp: on_message_parse_failure appendLine_outputChannel on_message_calls same)
qed

lemma message_calls_none:
  assumes "parse data = Some parsed"
    and "get_prop parsed ''type'' \<noteq> Inr (JStr ''webview-message'')
         \<or> (\<exists>p. get_prop parsed ''payload'' = Inr p \<and> \<not> truthy p)
         \<or> messageHandler s = None"
  shows "filter is_message_call (fst (snd (on_message parse data s))) = []"
  using assms
  by (auto simp: on_message_calls try_dispatch_calls dispatch_webview_message_calls
      dispatch_toolbar_action_calls split: option.splits sum.splits)

lemma distinct_Set_add: "distinct xs \<Longrightarrow> distinct (Set_add x xs)"
  by (simp add: Set_add_def)

lemma registry_stays_a_set:
  "distinct (clients s) \<Longrightarrow> distinct (clients (on_connection ws s))"
  "distinct (clients s) \<Longrightarrow> distinct (clients (on_close ws s))"
  "distinct (clients s) \<Longrightarrow> distinct (clients (on_error ws err s))"
  "ws \<notin> set (clients (on_close ws s))"
  "ws \<notin> set (clients (on_error ws err s))"
  by (simp_all add: on_connection_def on_close_def on_error_def appendLine_def Let_def
      distinct_Set_add Set_delete_def distinct_removeAll)

section \<open>The properties\<close>

subsection \<open>Access guard\<close>

text \<open>
  C1.  With a password configured, \<open>checkBasicAuth\<close> accepts a request exactly when its
  \<^verbatim>\<open>Authorization\<close> header begins with \<^verbatim>\<open>Basic \<close> and the decoded rest, taken after
  its first colon or in full if it has none, equals the password; the text before the
  colon plays no part.  A request it refuses gets status 401, the
  \<^verbatim>\<open>WWW-Authenticate: Basic\<close> challenge, a plain-text body, and \<open>handleRequest\<close>
  returns that response without routing.  With no password configured the guard lets
  every request through and leaves the response as it was.
\<close>

theorem checkBasicAuth_accepts_iff:
  "(password s \<noteq> [] \<longrightarrow>
      (fst (checkBasicAuth N s req res) \<longleftrightarrow>
         (\<exists>h. authorization req = Some h \<and> startsWith h ''Basic '' \<and>
              password_suffix (base64_utf8 N (drop (length ''Basic '') h)) = password s))
      \<and> (\<not> fst (checkBasicAuth N s req res) \<longrightarrow>
           statusCode (snd (checkBasicAuth N s req res)) = 401
           \<and> headers (snd (checkBasicAuth N s req res)) ''WWW-Authenticate''
               = Some ''Basic realm=\"Roo Code\"''
           \<and> headers (snd (checkBasicAuth N s req res)) ''Content-Type'' = Some ''text/plain''
           \<and> body (snd (checkBasicAuth N s req res)) = Text ''Unauthorized''
           \<and> finished (snd (checkBasicAuth N s req res))
           \<and> (req_method req \<noteq> Some ''OPTIONS'' \<longrightarrow>
                handleRequest N buildDir assetsDir audioDir req res s
                  = (s, snd (checkBasicAuth N s req (cors res))))))
   \<and> (password s = [] \<longrightarrow> checkBasicAuth N s req res = (True, res))"
proof -
  have a: "password s = [] \<Longrightarrow> checkBasicAuth N s req res = (True, res)"
    by (simp add: checkBasicAuth_def)
  have b: "\<not> fst (checkBasicAuth N s req res) \<Longrightarrow>
             snd (checkBasicAuth N s req res) = unauthorized res" for res
    by (simp add: checkBasicAuth_snd)
  have c: "\<not> fst (checkBasicAuth N s req res) \<Longrightarrow> req_method req \<noteq> Some ''OPTIONS'' \<Longrightarrow>
             handleRequest N buildDir assetsDir audioDir req res s
               = (s, snd (checkBasicAuth N s req (cors res)))"
    using checkBasicAuth_fst_res [of N s req res "cors res"]
    by (simp add: handleRequest_cases checkBasicAuth_snd)
  show ?thesis
    using a b [of res] c by (simp add: checkBasicAuth_fst unauthorized_simps)
qed

text \<open>
  At the password \<^verbatim>\<open>secret\<close>: the credentials \<^verbatim>\<open>anyuser:secret\<close> are accepted,
  \<^verbatim>\<open>anyuser:wrong\<close> and a request without the header are answered 401; a server
  without a password accepts the request without the header.
\<close>

theorem checkBasicAuth_accepts_iff_witness:
  "password secret_server \<noteq> []
   \<and> fst (checkBasicAuth (posix_node []) secret_server
           (get_request ''/'' (Some ''Basic YW55dXNlcjpzZWNyZXQ='')) new_ServerResponse)
   \<and> \<not> fst (checkBasicAuth (posix_node []) secret_server
             (get_request ''/'' (Some ''Basic YW55dXNlcjp3cm9uZw=='')) new_ServerResponse)
   \<and> statusCode (snd (checkBasicAuth (posix_node []) secret_server
                        (get_request ''/'' (Some ''Basic YW55dXNlcjp3cm9uZw==''))
                        new_ServerResponse)) = 401
   \<and> statusCode (snd (handleRequest (posix_node []) ''/ext/webview-ui/build'' ''/ext/assets''
                        ''/ext/webview-ui/audio'' (get_request ''/'' None)
                        new_ServerResponse secret_server)) = 401
   \<and> password new_WebServer = []
   \<and> checkBasicAuth (posix_node []) new_WebServer (get_request ''/'' None) new_ServerResponse
       = (True, new_ServerResponse)"
proof -
  let ?N = "posix_node []"
  let ?wrong = "get_request ''/'' (Some ''Basic YW55dXNlcjp3cm9uZw=='')"
  let ?none = "get_request ''/'' None"
  have p: "password secret_server \<noteq> []"
    by code_simp
  have ok: "fst (checkBasicAuth ?N secret_server
                  (get_request ''/'' (Some ''Basic YW55dXNlcjpzZWNyZXQ='')) new_ServerResponse)"
    by code_simp
  have w: "\<not> fst (checkBasicAuth ?N secret_server ?wrong new_ServerResponse)"
    by code_simp
  have n: "\<not> fst (checkBasicAuth ?N secret_server ?none new_ServerResponse)"
    by code_simp
  have m: "req_method ?none \<noteq> Some ''OPTIONS''"
    by (simp add: get_request_def)
  have e: "password new_WebServer = []"
    by (simp add: new_WebServer_def)
  have w401: "statusCode (snd (checkBasicAuth ?N secret_server ?wrong new_ServerResponse)) = 401"
    using checkBasicAuth_accepts_iff [where s = secret_server and N = ?N and req = ?wrong
        and res = new_ServerResponse] p w
    by blast
  have "handleRequest ?N ''/ext/webview-ui/build'' ''/ext/assets'' ''/ext/webview-ui/audio''
          ?none new_ServerResponse secret_server
        = (secret_server, snd (checkBasicAuth ?N secret_server ?none (cors new_ServerResponse)))"
    using checkBasicAuth_accepts_iff [where s = secret_server and N = ?N and req = ?none
        and res = new_ServerResponse and buildDir = "''/ext/webview-ui/build''"
        and assetsDir = "''/ext/assets''" and audioDir = "''/ext/webview-ui/audio''"] p n m
    by blast
  moreover have "statusCode (snd (checkBasicAuth ?N secret_server ?none (cors new_ServerResponse)))
                   = 401"
    using checkBasicAuth_accepts_iff [where s = secret_server and N = ?N and req = ?none
        and res = "cors new_ServerResponse"] p n
      checkBasicAuth_fst_res [of ?N secret_server ?none new_ServerResponse "cors new_ServerResponse"]
    by blast
  ultimately have h401: "statusCode (snd (handleRequest ?N ''/ext/webview-ui/build''
      ''/ext/assets'' ''/ext/webview-ui/audio'' ?none new_ServerResponse secret_server)) = 401"
    by simp
  have f: "checkBasicAuth ?N new_WebServer ?none new_ServerResponse = (True, new_ServerResponse)"
    using checkBasicAuth_accepts_iff [where s = new_WebServer and N = ?N and req = ?none
        and res = new_ServerResponse] e
    by blast
  from p ok w w401 h401 e f show ?thesis
    by blast
qed

subsection \<open>Inbound frames\<close>

text \<open>
  C2, as the code has it.  A frame that parses to an object of type
  \<^verbatim>\<open>webview-message\<close> whose payload is truthy (present, and not \<^verbatim>\<open>null\<close>,
  \<^verbatim>\<open>false\<close>, \<^verbatim>\<open>0\<close> or the empty string) makes the listener invoke the registered
  message handler exactly once, with that payload, and nothing else.  A frame whose
  payload is present but falsy, or whose type is any other value, reaches the message
  handler not at all.
\<close>

theorem webview_message_dispatch:
  "(parse data = Some (JObj kvs) \<and> map_of kvs ''type'' = Some (JStr ''webview-message'')
      \<and> map_of kvs ''payload'' = Some p \<and> truthy p \<and> messageHandler s = Some h \<longrightarrow>
        fst (snd (on_message parse data s)) = [CallMessageHandler p])
   \<and> (parse data = Some (JObj kvs) \<and> map_of kvs ''payload'' = Some p \<and> \<not> truthy p \<longrightarrow>
        filter is_message_call (fst (snd (on_message parse data s))) = [])
   \<and> (parse data = Some parsed \<and> get_prop parsed ''type'' \<noteq> Inr (JStr ''webview-message'') \<longrightarrow>
        filter is_message_call (fst (snd (on_message parse data s))) = [])"
proof -
  have one: "fst (snd (on_message parse data s)) = [CallMessageHandler p]"
    if "parse data = Some (JObj kvs)" "map_of kvs ''type'' = Some (JStr ''webview-message'')"
      "map_of kvs ''payload'' = Some p" "truthy p" "messageHandler s = Some h"
    using on_message_webview [of parse data kvs p s h] that
    by (simp split: outcome.splits option.splits)
  have falsy: "filter is_message_call (fst (snd (on_message parse data s))) = []"
    if "parse data = Some (JObj kvs)" "map_of kvs ''payload'' = Some p" "\<not> truthy p"
    using that by (intro message_calls_none [of parse data "JObj kvs"]) (simp_all add: get_prop_JObj)
  have other: "filter is_message_call (fst (snd (on_message parse data s))) = []"
    if "parse data = Some parsed" "get_prop parsed ''type'' \<noteq> Inr (JStr ''webview-message'')"
    using that by (intro message_calls_none [of parse data parsed]) simp_all
  from one falsy other show ?thesis
    by blast
qed

text \<open>
  The frames \<^verbatim>\<open>{"type":"webview-message","payload":{"x":1}}\<close>,
  \<^verbatim>\<open>{"type":"webview-message","payload":""}\<close> and \<^verbatim>\<open>{"type":"unknown"}\<close>, sent to a
  server with a message handler.
\<close>

theorem webview_message_dispatch_witness:
  "fst (snd (on_message
              (parse_table
                 [(''{\"type\":\"webview-message\",\"payload\":{\"x\":1}}'',
                   JObj [(''type'', JStr ''webview-message''),
                         (''payload'', JObj [(''x'', JNum (Finite 1))])])])
              ''{\"type\":\"webview-message\",\"payload\":{\"x\":1}}''
              (setMessageHandler resolving new_WebServer)))
     = [CallMessageHandler (JObj [(''x'', JNum (Finite 1))])]
   \<and> filter is_message_call
        (fst (snd (on_message
                    (parse_table
                       [(''{\"type\":\"webview-message\",\"payload\":\"\"}'',
                         JObj [(''type'', JStr ''webview-message''), (''payload'', JStr [])])])
                    ''{\"type\":\"webview-message\",\"payload\":\"\"}''
                    (setMessageHandler resolving new_WebServer)))) = []
   \<and> filter is_message_call
        (fst (snd (on_message
                    (parse_table
                       [(''{\"type\":\"unknown\"}'', JObj [(''type'', JStr ''unknown'')])])
                    ''{\"type\":\"unknown\"}''
                    (setMessageHandler resolving new_WebServer)))) = []"
proof -
  let ?s = "setMessageHandler resolving new_WebServer"
  let ?d1 = "''{\"type\":\"webview-message\",\"payload\":{\"x\":1}}''"
  let ?k1 = "[(''type'', JStr ''webview-message''), (''payload'', JObj [(''x'', JNum (Finite 1))])]"
  let ?d2 = "''{\"type\":\"webview-message\",\"payload\":\"\"}''"
  let ?k2 = "[(''type'', JStr ''webview-message''), (''payload'', JStr [])]"
  let ?d3 = "''{\"type\":\"unknown\"}''"
  let ?k3 = "[(''type'', JStr ''unknown'')]"
  have h: "messageHandler ?s = Some resolving"
    by (simp add: setMessageHandler_def)
  have a: "parse_table [(?d1, JObj ?k1)] ?d1 = Some (JObj ?k1)
           \<and> map_of ?k1 ''type'' = Some (JStr ''webview-message'')
           \<and> map_of ?k1 ''payload'' = Some (JObj [(''x'', JNum (Finite 1))])
           \<and> truthy (JObj [(''x'', JNum (Finite 1))])"
    by (simp add: parse_table_def)
  have b: "parse_table [(?d2, JObj ?k2)] ?d2 = Some (JObj ?k2)
           \<and> map_of ?k2 ''payload'' = Some (JStr []) \<and> \<not> truthy (JStr [])"
    by (simp add: parse_table_def)
  have c: "parse_table [(?d3, JObj ?k3)] ?d3 = Some (JObj ?k3)
           \<and> get_prop (JObj ?k3) ''type'' \<noteq> Inr (JStr ''webview-message'')"
    by (simp add: parse_table_def)
  show ?thesis
    using
      webview_message_dispatch [where parse = "parse_table [(?d1, JObj ?k1)]" and data = ?d1
        and kvs = ?k1 and p = "JObj [(''x'', JNum (Finite 1))]" and s = ?s and h = resolving]
      webview_message_dispatch [where parse = "parse_table [(?d2, JObj ?k2)]" and data = ?d2
        and kvs = ?k2 and p = "JStr []" and s = ?s]
      webview_message_dispatch [where parse = "parse_table [(?d3, JObj ?k3)]" and data = ?d3
        and parsed = "JObj ?k3" and s = ?s]
      h a b c
    by blast
qed

text \<open>
  The claim as the spec words it fails: the frame
  \<^verbatim>\<open>{"type":"webview-message","payload":0}\<close> has a payload field, a handler is
  registered, and the handler is not invoked.
\<close>

theorem webview_message_dispatch_counterexample:
  "map_of [(''type'', JStr ''webview-message''), (''payload'', JNum (Finite 0))] ''payload''
     = Some (JNum (Finite 0))
   \<and> messageHandler (setMessageHandler resolving new_WebServer) = Some resolving
   \<and> fst (snd (on_message
                 (parse_table
                    [(''{\"type\":\"webview-message\",\"payload\":0}'',
                      JObj [(''type'', JStr ''webview-message''),
                            (''payload'', JNum (Finite 0))])])
                 ''{\"type\":\"webview-message\",\"payload\":0}''
                 (setMessageHandler resolving new_WebServer))) = []"
  by (simp add: on_message_def try_dispatch_def dispatch_webview_message_def
      dispatch_toolbar_action_def parse_table_def setMessageHandler_def new_WebServer_def)

text \<open>
  C7.  The listener means to catch and log whatever a frame raises, and does so for a
  frame that does not parse and for a handler that rejects with an \<^verbatim>\<open>Error\<close>
  (\<open>contained_failures\<close>).  It fails where the handler rejects with a value that has
  no conversion to a string.  Here the message handler rejects with a \<^verbatim>\<open>Symbol\<close> and
  the frame is \<^verbatim>\<open>{"type":"webview-message","payload":{"x":1}}\<close>: the handler is
  called, the template literal of the \<^verbatim>\<open>catch\<close> throws, a TypeError leaves the
  listener, and the output channel stays empty.
\<close>

theorem symbol_rejection_escapes:
  "on_message
     (parse_table
        [(''{\"type\":\"webview-message\",\"payload\":{\"x\":1}}'',
          JObj [(''type'', JStr ''webview-message''),
                (''payload'', JObj [(''x'', JNum (Finite 1))])])])
     ''{\"type\":\"webview-message\",\"payload\":{\"x\":1}}''
     (setMessageHandler rejecting_with_symbol new_WebServer)
     = (setMessageHandler rejecting_with_symbol new_WebServer,
        [CallMessageHandler (JObj [(''x'', JNum (Finite 1))])],
        Some TypeError)
   \<and> outputChannel
        (fst (on_message
               (parse_table
                  [(''{\"type\":\"webview-message\",\"payload\":{\"x\":1}}'',
                    JObj [(''type'', JStr ''webview-message''),
                          (''payload'', JObj [(''x'', JNum (Finite 1))])])])
               ''{\"type\":\"webview-message\",\"payload\":{\"x\":1}}''
               (setMessageHandler rejecting_with_symbol new_WebServer))) = []"
  by (simp add: on_message_def try_dispatch_def dispatch_webview_message_def
      parse_table_def setMessageHandler_def rejecting_with_symbol_def new_WebServer_def)

text \<open>
  C10.  No frame makes the listener invoke both handlers: it makes at most one handler
  call, so a call of the message handler and a call of the toolbar handler never come
  from the same frame.
\<close>

theorem at_most_one_handler:
  "length (fst (snd (on_message parse data s))) \<le> 1
   \<and> \<not> (\<exists>p a. CallMessageHandler p \<in> set (fst (snd (on_message parse data s)))
             \<and> CallToolbarActionHandler a \<in> set (fst (snd (on_message parse data s))))"
  by (auto simp: on_message_calls try_dispatch_calls dispatch_webview_message_calls
      dispatch_toolbar_action_calls split: option.splits sum.splits if_splits)

subsection \<open>Broadcast\<close>

text \<open>
  C5.  On an empty registry \<open>broadcastToClients\<close> writes nothing and raises nothing,
  even where serializing would throw.  Otherwise, where the envelope
  \<^verbatim>\<open>{type: "extension-message", payload: message}\<close> serializes to \<open>data\<close>, the frames
  written are \<open>data\<close>, once for each registered connection whose socket is open, in
  registry order; connections in any other state get nothing, and nothing is raised.
\<close>

theorem broadcast_fanout:
  "(clients s = [] \<longrightarrow> broadcastToClients stringify rs message s = (s, [], None))
   \<and> (clients s \<noteq> []
        \<and> stringify (JObj [(''type'', JStr ''extension-message''), (''payload'', message)])
            = Some data \<longrightarrow>
        broadcastToClients stringify rs message s
          = (s, map (\<lambda>c. Send c data) (filter (\<lambda>c. rs c = OPEN) (clients s)), None))"
  by (simp add: broadcastToClients_def send_each_eq envelope_def)

text \<open>
  A broadcast of \<^verbatim>\<open>{foo: 1}\<close> to no client, with a serializer that would throw; and
  to the clients 10, 20, 30 of which 20 is closed.
\<close>

theorem broadcast_fanout_witness:
  "clients new_WebServer = []
   \<and> broadcastToClients stringify_throws (open_sockets [])
        (JObj [(''foo'', JNum (Finite 1))]) new_WebServer = (new_WebServer, [], None)
   \<and> clients (on_connection 30 (on_connection 20 (on_connection 10 new_WebServer))) = [10, 20, 30]
   \<and> stringify_table
        [(JObj [(''type'', JStr ''extension-message''),
                 (''payload'', JObj [(''foo'', JNum (Finite 1))])],
          ''{\"type\":\"extension-message\",\"payload\":{\"foo\":1}}'')]
        (JObj [(''type'', JStr ''extension-message''),
               (''payload'', JObj [(''foo'', JNum (Finite 1))])])
       = Some ''{\"type\":\"extension-message\",\"payload\":{\"foo\":1}}''
   \<and> snd (broadcastToClients
            (stringify_table
               [(JObj [(''type'', JStr ''extension-message''),
                        (''payload'', JObj [(''foo'', JNum (Finite 1))])],
                 ''{\"type\":\"extension-message\",\"payload\":{\"foo\":1}}'')])
            (open_sockets [10, 30]) (JObj [(''foo'', JNum (Finite 1))])
            (on_connection 30 (on_connection 20 (on_connection 10 new_WebServer))))
       = ([Send 10 ''{\"type\":\"extension-message\",\"payload\":{\"foo\":1}}'',
           Send 30 ''{\"type\":\"extension-message\",\"payload\":{\"foo\":1}}''], None)"
proof -
  let ?m = "JObj [(''foo'', JNum (Finite 1))]"
  let ?data = "''{\"type\":\"extension-message\",\"payload\":{\"foo\":1}}''"
  let ?e = "JObj [(''type'', JStr ''extension-message''), (''payload'', ?m)]"
  let ?s = "on_connection 30 (on_connection 20 (on_connection 10 new_WebServer))"
  have e: "clients new_WebServer = []"
    by (simp add: new_WebServer_def)
  have c: "clients ?s = [10, 20, 30]"
    by (simp add: on_connection_def Set_add_def appendLine_def new_WebServer_def Let_def)
  have d: "stringify_table [(?e, ?data)] ?e = Some ?data"
    by (simp add: stringify_table_def)
  have none: "broadcastToClients stringify_throws (open_sockets []) ?m new_WebServer
                = (new_WebServer, [], None)"
    using broadcast_fanout [where s = new_WebServer and stringify = stringify_throws
        and rs = "open_sockets []" and message = ?m] e
    by blast
  have "broadcastToClients (stringify_table [(?e, ?data)]) (open_sockets [10, 30]) ?m ?s
          = (?s, map (\<lambda>c. Send c ?data)
                   (filter (\<lambda>c. open_sockets [10, 30] c = OPEN) (clients ?s)), None)"
    using broadcast_fanout [where s = ?s and stringify = "stringify_table [(?e, ?data)]"
        and rs = "open_sockets [10, 30]" and message = ?m and data = ?data] c d
    by simp
  then have two: "snd (broadcastToClients (stringify_table [(?e, ?data)])
                        (open_sockets [10, 30]) ?m ?s)
                    = ([Send 10 ?data, Send 30 ?data], None)"
    by (simp add: c open_sockets_def)
  from e none c d two show ?thesis
    by blast
qed

text \<open>
  C9.  \<open>broadcastToClients\<close> leaves the registry as it found it, for every registry,
  message, socket state and serializer, also where serializing throws.
\<close>

theorem broadcast_keeps_registry:
  "clients (fst (broadcastToClients stringify rs message s)) = clients s"
  by (simp add: broadcastToClients_def split: option.splits)

subsection \<open>Requests\<close>

text \<open>
  C6.  Whatever the request and whatever the guard and the routing decide, the response
  carries \<^verbatim>\<open>Access-Control-Allow-Origin: *\<close>,
  \<^verbatim>\<open>Access-Control-Allow-Methods: GET, OPTIONS\<close> and
  \<^verbatim>\<open>Access-Control-Allow-Headers: Content-Type\<close>.  A request of method
  \<^verbatim>\<open>OPTIONS\<close> is answered 204 with nothing written to the body and no challenge,
  whatever the password.
\<close>

theorem cors_headers_and_preflight:
  "headers (snd (handleRequest N buildDir assetsDir audioDir req new_ServerResponse s))
       ''Access-Control-Allow-Origin'' = Some ''*''
   \<and> headers (snd (handleRequest N buildDir assetsDir audioDir req new_ServerResponse s))
       ''Access-Control-Allow-Methods'' = Some ''GET, OPTIONS''
   \<and> headers (snd (handleRequest N buildDir assetsDir audioDir req new_ServerResponse s))
       ''Access-Control-Allow-Headers'' = Some ''Content-Type''
   \<and> (req_method req = Some ''OPTIONS'' \<longrightarrow>
        fst (handleRequest N buildDir assetsDir audioDir req new_ServerResponse s) = s
        \<and> statusCode (snd (handleRequest N buildDir assetsDir audioDir req new_ServerResponse s)) = 204
        \<and> body (snd (handleRequest N buildDir assetsDir audioDir req new_ServerResponse s)) = NoContent
        \<and> finished (snd (handleRequest N buildDir assetsDir audioDir req new_ServerResponse s))
        \<and> headers (snd (handleRequest N buildDir assetsDir audioDir req new_ServerResponse s))
            ''WWW-Authenticate'' = None)"
proof -
  have h: "headers (snd (handleRequest N buildDir assetsDir audioDir req new_ServerResponse s)) name
             = headers (cors new_ServerResponse) name"
    if "name \<in> {''Access-Control-Allow-Origin'', ''Access-Control-Allow-Methods'',
                 ''Access-Control-Allow-Headers''}" for name
    using that by (intro handleRequest_keeps_header) auto
  have o: "handleRequest N buildDir assetsDir audioDir req new_ServerResponse s
             = (s, end_response None (writeHead 204 [] (cors new_ServerResponse)))"
    if "req_method req = Some ''OPTIONS''"
    using that by (rule handleRequest_OPTIONS)
  have w: "headers (cors new_ServerResponse) ''WWW-Authenticate'' = None"
    by (simp add: cors_def setHeader_def new_ServerResponse_def)
  have b: "body new_ServerResponse = NoContent"
    by (simp add: new_ServerResponse_def)
  have p: "fst (handleRequest N buildDir assetsDir audioDir req new_ServerResponse s) = s
        \<and> statusCode (snd (handleRequest N buildDir assetsDir audioDir req new_ServerResponse s)) = 204
        \<and> body (snd (handleRequest N buildDir assetsDir audioDir req new_ServerResponse s)) = NoContent
        \<and> finished (snd (handleRequest N buildDir assetsDir audioDir req new_ServerResponse s))
        \<and> headers (snd (handleRequest N buildDir assetsDir audioDir req new_ServerResponse s))
            ''WWW-Authenticate'' = None"
    if m: "req_method req = Some ''OPTIONS''"
    by (simp add: o [OF m] w b cors_simps writeHead_def end_response_def)
  show ?thesis
    using p by (simp add: h cors_simps)
qed

text \<open>A preflight without credentials, to the server that has a password.\<close>

theorem cors_headers_and_preflight_witness:
  "password secret_server \<noteq> []
   \<and> req_method \<lparr> url = Some ''/'', req_method = Some ''OPTIONS'', authorization = None \<rparr>
       = Some ''OPTIONS''
   \<and> statusCode (snd (handleRequest (posix_node []) ''/ext/webview-ui/build'' ''/ext/assets''
        ''/ext/webview-ui/audio''
        \<lparr> url = Some ''/'', req_method = Some ''OPTIONS'', authorization = None \<rparr>
        new_ServerResponse secret_server)) = 204
   \<and> body (snd (handleRequest (posix_node []) ''/ext/webview-ui/build'' ''/ext/assets''
        ''/ext/webview-ui/audio''
        \<lparr> url = Some ''/'', req_method = Some ''OPTIONS'', authorization = None \<rparr>
        new_ServerResponse secret_server)) = NoContent"
proof -
  let ?req = "\<lparr> url = Some ''/'', req_method = Some ''OPTIONS'', authorization = None \<rparr>"
  have p: "password secret_server \<noteq> []"
    by code_simp
  have m: "req_method ?req = Some ''OPTIONS''"
    by simp
  from cors_headers_and_preflight [where req = ?req and N = "posix_node []"
      and buildDir = "''/ext/webview-ui/build''" and assetsDir = "''/ext/assets''"
      and audioDir = "''/ext/webview-ui/audio''" and s = secret_server] p m
  show ?thesis
    by blast
qed

text \<open>
  C4.  For a request that is not a preflight, that the guard lets through, and whose
  path is under neither \<^verbatim>\<open>/ext-assets/\<close> nor \<^verbatim>\<open>/audio/\<close>, the status is never 404.
  If the path is \<^verbatim>\<open>/\<close>, or has no extension, or names no file under the build
  directory, the answer is the bootstrap page with status 200 and type
  \<^verbatim>\<open>text/html\<close>.
\<close>

theorem spa_route_never_404:
  assumes "req_method req \<noteq> Some ''OPTIONS''"
    and "fst (checkBasicAuth N s req res)"
    and "\<not> startsWith (urlPath_of req) ''/ext-assets/''"
    and "\<not> startsWith (urlPath_of req) ''/audio/''"
  shows "statusCode (snd (handleRequest N buildDir assetsDir audioDir req res s)) \<noteq> 404
    \<and> (urlPath_of req = ''/'' \<or> path_extname N (urlPath_of req) = []
         \<or> \<not> existsSync N (path_join N buildDir (urlPath_of req)) \<longrightarrow>
       statusCode (snd (handleRequest N buildDir assetsDir audioDir req res s)) = 200
       \<and> is_bootstrap_page (body (snd (handleRequest N buildDir assetsDir audioDir req res s)))
       \<and> headers (snd (handleRequest N buildDir assetsDir audioDir req res s)) ''Content-Type''
           = Some ''text/html'')"
  using assms serveFile_present [of N "path_join N buildDir (urlPath_of req)" "cors res" s]
  by (auto simp: handleRequest_cases serveIndexHtml_simps)

text \<open>
  The route \<^verbatim>\<open>/nonexistent-route\<close> and the absent file \<^verbatim>\<open>/missing.js?v=1\<close>, on a
  filesystem with no file at all.
\<close>

theorem spa_route_never_404_witness:
  "req_method (get_request ''/nonexistent-route'' None) \<noteq> Some ''OPTIONS''
   \<and> fst (checkBasicAuth (posix_node []) new_WebServer (get_request ''/nonexistent-route'' None)
           new_ServerResponse)
   \<and> \<not> startsWith (urlPath_of (get_request ''/nonexistent-route'' None)) ''/ext-assets/''
   \<and> \<not> startsWith (urlPath_of (get_request ''/nonexistent-route'' None)) ''/audio/''
   \<and> path_extname (posix_node []) (urlPath_of (get_request ''/nonexistent-route'' None)) = []
   \<and> statusCode (snd (handleRequest (posix_node []) ''/ext/webview-ui/build'' ''/ext/assets''
        ''/ext/webview-ui/audio'' (get_request ''/nonexistent-route'' None)
        new_ServerResponse new_WebServer)) = 200
   \<and> is_bootstrap_page (body (snd (handleRequest (posix_node []) ''/ext/webview-ui/build''
        ''/ext/assets'' ''/ext/webview-ui/audio'' (get_request ''/nonexistent-route'' None)
        new_ServerResponse new_WebServer)))
   \<and> path_extname (posix_node []) (urlPath_of (get_request ''/missing.js?v=1'' None)) = ''.js''
   \<and> \<not> existsSync (posix_node [])
          (path_join (posix_node []) ''/ext/webview-ui/build''
             (urlPath_of (get_request ''/missing.js?v=1'' None)))
   \<and> statusCode (snd (handleRequest (posix_node []) ''/ext/webview-ui/build'' ''/ext/assets''
        ''/ext/webview-ui/audio'' (get_request ''/missing.js?v=1'' None)
        new_ServerResponse new_WebServer)) = 200
   \<and> is_bootstrap_page (body (snd (handleRequest (posix_node []) ''/ext/webview-ui/build''
        ''/ext/assets'' ''/ext/webview-ui/audio'' (get_request ''/missing.js?v=1'' None)
        new_ServerResponse new_WebServer)))"
proof -
  let ?N = "posix_node []"
  let ?r1 = "get_request ''/nonexistent-route'' None"
  let ?r2 = "get_request ''/missing.js?v=1'' None"
  have m1: "req_method ?r1 \<noteq> Some ''OPTIONS''" and m2: "req_method ?r2 \<noteq> Some ''OPTIONS''"
    by (simp_all add: get_request_def)
  have a1: "fst (checkBasicAuth ?N new_WebServer ?r1 new_ServerResponse)"
    and a2: "fst (checkBasicAuth ?N new_WebServer ?r2 new_ServerResponse)"
    by (simp_all add: checkBasicAuth_def new_WebServer_def)
  have p1: "\<not> startsWith (urlPath_of ?r1) ''/ext-assets/''"
    and q1: "\<not> startsWith (urlPath_of ?r1) ''/audio/''"
    and p2: "\<not> startsWith (urlPath_of ?r2) ''/ext-assets/''"
    and q2: "\<not> startsWith (urlPath_of ?r2) ''/audio/''"
    by code_simp+
  have x1: "path_extname ?N (urlPath_of ?r1) = []"
    by code_simp
  have x2: "path_extname ?N (urlPath_of ?r2) = ''.js''"
    by code_simp
  have f2: "\<not> existsSync ?N (path_join ?N ''/ext/webview-ui/build'' (urlPath_of ?r2))"
    by code_simp
  from spa_route_never_404 [where req = ?r1 and N = ?N and s = new_WebServer
      and res = new_ServerResponse and buildDir = "''/ext/webview-ui/build''"
      and assetsDir = "''/ext/assets''" and audioDir = "''/ext/webview-ui/audio''",
      OF m1 a1 p1 q1] x1
  have one: "statusCode (snd (handleRequest ?N ''/ext/webview-ui/build'' ''/ext/assets''
               ''/ext/webview-ui/audio'' ?r1 new_ServerResponse new_WebServer)) = 200
             \<and> is_bootstrap_page (body (snd (handleRequest ?N ''/ext/webview-ui/build''
               ''/ext/assets'' ''/ext/webview-ui/audio'' ?r1 new_ServerResponse new_WebServer)))"
    by blast
  from spa_route_never_404 [where req = ?r2 and N = ?N and s = new_WebServer
      and res = new_ServerResponse and buildDir = "''/ext/webview-ui/build''"
      and assetsDir = "''/ext/assets''" and audioDir = "''/ext/webview-ui/audio''",
      OF m2 a2 p2 q2] f2
  have two: "statusCode (snd (handleRequest ?N ''/ext/webview-ui/build'' ''/ext/assets''
               ''/ext/webview-ui/audio'' ?r2 new_ServerResponse new_WebServer)) = 200
             \<and> is_bootstrap_page (body (snd (handleRequest ?N ''/ext/webview-ui/build''
               ''/ext/assets'' ''/ext/webview-ui/audio'' ?r2 new_ServerResponse new_WebServer)))"
    by blast
  from m1 a1 p1 q1 x1 one x2 f2 two show ?thesis
    by blast
qed

text \<open>
  C3.  The request \<^verbatim>\<open>GET /ext-assets/../secret.txt\<close>, with the assets root
  \<^verbatim>\<open>/ext/assets\<close>: the path after the prefix is \<^verbatim>\<open>../secret.txt\<close>, joining it
  to the root gives \<^verbatim>\<open>/ext/secret.txt\<close>, which is not under the root, and the file
  there is served with status 200.
\<close>

theorem ext_assets_leaves_root:
  "urlPath_of (get_request ''/ext-assets/../secret.txt'' None) = ''/ext-assets/../secret.txt''
   \<and> path_join (posix_node [(''/ext/secret.txt'', ''top secret'')]) ''/ext/assets''
        (drop (length ''/ext-assets/'') ''/ext-assets/../secret.txt'') = ''/ext/secret.txt''
   \<and> \<not> startsWith ''/ext/secret.txt'' ''/ext/assets''
   \<and> statusCode (snd (handleRequest (posix_node [(''/ext/secret.txt'', ''top secret'')])
        ''/ext/webview-ui/build'' ''/ext/assets'' ''/ext/webview-ui/audio''
        (get_request ''/ext-assets/../secret.txt'' None) new_ServerResponse new_WebServer)) = 200
   \<and> body (snd (handleRequest (posix_node [(''/ext/secret.txt'', ''top secret'')])
        ''/ext/webview-ui/build'' ''/ext/assets'' ''/ext/webview-ui/audio''
        (get_request ''/ext-assets/../secret.txt'' None) new_ServerResponse new_WebServer))
       = File ''top secret''"
proof -
  let ?N = "posix_node [(''/ext/secret.txt'', ''top secret'')]"
  let ?req = "get_request ''/ext-assets/../secret.txt'' None"
  have u: "urlPath_of ?req = ''/ext-assets/../secret.txt''"
    by code_simp
  have j: "path_join ?N ''/ext/assets'' (drop (length ''/ext-assets/'') ''/ext-assets/../secret.txt'')
             = ''/ext/secret.txt''"
    by code_simp
  have o: "\<not> startsWith ''/ext/secret.txt'' ''/ext/assets''"
    by code_simp
  have m: "req_method ?req \<noteq> Some ''OPTIONS''"
    by (simp add: get_request_def)
  have a: "fst (checkBasicAuth ?N new_WebServer ?req new_ServerResponse)"
    by (simp add: checkBasicAuth_def new_WebServer_def)
  have p: "startsWith ''/ext-assets/../secret.txt'' ''/ext-assets/''"
    by code_simp
  have h: "handleRequest ?N ''/ext/webview-ui/build'' ''/ext/assets'' ''/ext/webview-ui/audio''
             ?req new_ServerResponse new_WebServer
           = serveFile ?N ''/ext/secret.txt'' (cors new_ServerResponse) new_WebServer"
    using m a p by (simp only: handleRequest_cases u j if_True if_False not_True_eq_False)
  have e: "existsSync ?N ''/ext/secret.txt''"
    and r: "readFileSync ?N ''/ext/secret.txt'' = Inr ''top secret''"
    by (simp_all add: posix_node_def)
  have "statusCode (snd (serveFile ?N ''/ext/secret.txt'' (cors new_ServerResponse) new_WebServer))
          = 200
        \<and> body (snd (serveFile ?N ''/ext/secret.txt'' (cors new_ServerResponse) new_WebServer))
          = File ''top secret''"
    using e r by (simp add: serveFile_def Let_def writeHead_def end_response_def)
  with u j o h show ?thesis
    by simp
qed

subsection \<open>Configuration\<close>

text \<open>
  C8, as the code has it.  \<open>configure\<close> stores the port when it compares greater than
  zero and the default 30000 otherwise; a positive integer is therefore stored as it
  is.  \<open>getPort\<close> returns the stored value, and \<open>start\<close> does not change it.
\<close>

theorem configure_then_getPort:
  "getPort (configure p pw s) = (if gt_zero p then p else DEFAULT_WEB_SERVER_PORT)
   \<and> getPort (fst (start listen (configure p pw s))) = getPort (configure p pw s)
   \<and> (is_positive_integer p \<longrightarrow> getPort (configure p pw s) = p)"
  using gt_zero_positive_integer [of p]
  by (auto simp: getPort_def start_port) (simp_all add: configure_def)

theorem configure_then_getPort_witness:
  "is_positive_integer (Finite 8080)
   \<and> getPort (configure (Finite 8080) (Some ''secret'') new_WebServer) = Finite 8080
   \<and> getPort (fst (start None (configure (Finite 8080) (Some ''secret'') new_WebServer)))
       = Finite 8080"
proof -
  have h: "is_positive_integer (Finite 8080)"
    by simp
  from configure_then_getPort [of "Finite 8080" "Some ''secret''" new_WebServer None] h
  show ?thesis
    by simp
qed

text \<open>
  The claim as the spec words it fails at the port \<^verbatim>\<open>1.5\<close>, which is positive and
  no integer: it is stored, not replaced by the default.
\<close>

theorem configure_port_counterexample:
  "\<not> is_positive_integer (Finite (3 / 2))
   \<and> getPort (configure (Finite (3 / 2)) None new_WebServer) \<noteq> DEFAULT_WEB_SERVER_PORT"
proof -
  have "\<not> is_positive_integer (Finite (3 / 2))"
    by code_simp
  then show ?thesis
    by (simp add: getPort_def configure_def DEFAULT_WEB_SERVER_PORT_def)
qed

end
